theory Spec2Isabelle
  imports Complex_Main "HOL-Library.Sublist"
begin

section \<open>Data model\<close>

text \<open>
  JavaScript strings are modelled as \<^typ>\<open>string\<close>: one \<^typ>\<open>char\<close> stands for one
  code unit of the source string, restricted to the codes below 256. JavaScript numbers are
  modelled as exact rationals; pixel dimensions of an image are natural numbers.
\<close>

text \<open>
  \<^verbatim>\<open>TextWithBoundingBox\<close> of \<^verbatim>\<open>services/geminiService.ts\<close>; its field
  \<^verbatim>\<open>text\<close> is named \<open>region_text\<close> here.
\<close>

record BoundingBox =
  x1 :: rat
  y1 :: rat
  x2 :: rat
  y2 :: rat

record TextWithBoundingBox =
  region_text :: string
  boundingBox :: BoundingBox

text \<open>\<^verbatim>\<open>TextItem\<close> of \<^verbatim>\<open>components/ImageEditor.tsx\<close> (the spec's EditItem).\<close>

record TextItem =
  item_id :: nat
  original :: string
  modified :: string
  item_boundingBox :: BoundingBox

text \<open>\<^verbatim>\<open>BatchStatus\<close> and \<^verbatim>\<open>BatchProgress\<close>: the optional fields are options.\<close>

datatype BatchStatus = pending | loading | success | error

record BatchProgress =
  status :: BatchStatus
  result :: "string option"
  error_msg :: "string option"

text \<open>
  A \<^verbatim>\<open>File\<close> is seen through its MIME type and the string that
  \<^verbatim>\<open>FileReader.readAsDataURL\<close> delivers for it; an \<^verbatim>\<open>UploadedImage\<close> pairs the
  file with that data URL (fields \<^verbatim>\<open>file\<close> and \<^verbatim>\<open>base64\<close>).
\<close>

record File =
  file_type :: string
  file_dataURL :: string

record UploadedImage =
  image_file :: File
  image_base64 :: string

text \<open>
  What a \<^verbatim>\<open>throw\<close> carries: an \<^verbatim>\<open>Error\<close> instance with its message, or any
  other value (the \<^verbatim>\<open>catch\<close> blocks test \<^verbatim>\<open>err instanceof Error\<close>).
\<close>

datatype js_thrown = Error string | NonError

section \<open>String helpers of the runtime\<close>

text \<open>
  \<^verbatim>\<open>String.prototype.trim\<close> removes white space and line terminators from both ends.
  Below code 256 these are TAB, LF, VT, FF, CR, SPACE and NO-BREAK SPACE.
\<close>

definition is_js_whitespace :: "char \<Rightarrow> bool" where
  "is_js_whitespace c \<longleftrightarrow> (of_char c :: nat) \<in> {9, 10, 11, 12, 13, 32, 160}"

definition trim :: "string \<Rightarrow> string" where
  "trim s = rev (dropWhile is_js_whitespace (rev (dropWhile is_js_whitespace s)))"

text \<open>\<^verbatim>\<open>Array.prototype.join\<close> on strings.\<close>

fun join :: "string \<Rightarrow> string list \<Rightarrow> string" where
  "join sep [] = []"
| "join sep [l] = l"
| "join sep (l # m # ls) = l @ sep @ join sep (m # ls)"

text \<open>Decimal rendering of an index inside a template literal.\<close>

definition digit_char :: "nat \<Rightarrow> char" where
  "digit_char d = char_of (48 + d)"

function string_of_nat :: "nat \<Rightarrow> string" where
  "string_of_nat n =
     (if n < 10 then [digit_char n] else string_of_nat (n div 10) @ [digit_char (n mod 10)])"
  by pat_completeness auto
termination
  by (relation "measure id") auto

section \<open>The canvas used to build a mask\<close>

text \<open>
  The canvas is modelled by its size, its current fill style and the drawing calls issued
  to its 2D context, in order. \<^verbatim>\<open>drawImage(el, 0, 0)\<close> records the index of the image
  element drawn.
\<close>

record Rect =
  rect_x :: rat
  rect_y :: rat
  rect_w :: rat
  rect_h :: rat

datatype draw_op = DrawImage nat rat rat | FillRect string Rect

record Canvas =
  canvas_width :: nat
  canvas_height :: nat
  fillStyle :: string
  ops :: "draw_op list"

text \<open>\<^verbatim>\<open>document.createElement('canvas')\<close>: 300 by 150, black fill style, nothing drawn.\<close>

definition createCanvas :: Canvas where
  "createCanvas = \<lparr>canvas_width = 300, canvas_height = 150, fillStyle = ''#000000'', ops = []\<rparr>"

definition drawImage :: "nat \<Rightarrow> rat \<Rightarrow> rat \<Rightarrow> Canvas \<Rightarrow> Canvas" where
  "drawImage el dx dy cv = cv\<lparr>ops := ops cv @ [DrawImage el dx dy]\<rparr>"

definition fillRect :: "rat \<Rightarrow> rat \<Rightarrow> rat \<Rightarrow> rat \<Rightarrow> Canvas \<Rightarrow> Canvas" where
  "fillRect x y w h cv =
     cv\<lparr>ops := ops cv @ [FillRect (fillStyle cv) \<lparr>rect_x = x, rect_y = y, rect_w = w, rect_h = h\<rparr>]\<rparr>"

section \<open>Mask Builder: the \<^verbatim>\<open>changes.map\<close> callback of \<^verbatim>\<open>handleSubmit\<close>\<close>

text \<open>
  \<^verbatim>\<open>currentImageTextItems.find(item => item.text.trim() === change.original.trim())\<close>:
  the first element of the target image's own list whose trimmed text is the trimmed
  original.
\<close>

definition findText :: "TextWithBoundingBox list \<Rightarrow> TextItem \<Rightarrow> TextWithBoundingBox option" where
  "findText currentImageTextItems change =
     List.find (\<lambda>item. trim (region_text item) = trim (original change)) currentImageTextItems"

text \<open>The template literal returned for a change whose text was found.\<close>

definition instruction_line :: "TextItem \<Rightarrow> string" where
  "instruction_line change =
     ''- In the area where '' @ [CHR 0x22] @ original change @ [CHR 0x22] @
     '' was, write '' @ [CHR 0x22] @ modified change @ [CHR 0x22]"

text \<open>
  One call of the callback: it reads and writes the captured \<^verbatim>\<open>hasMasks\<close> flag and the
  canvas context, and returns the instruction line or \<^verbatim>\<open>null\<close>.
\<close>

definition mask_change ::
  "TextWithBoundingBox list \<Rightarrow> TextItem \<Rightarrow> bool \<times> Canvas \<Rightarrow> string option \<times> (bool \<times> Canvas)" where
  "mask_change currentImageTextItems change st =
     (case findText currentImageTextItems change of
        Some foundText \<Rightarrow>
          (let cv = snd st;
               b = boundingBox foundText;
               rectX = x1 b * of_nat (canvas_width cv);
               rectY = y1 b * of_nat (canvas_height cv);
               rectW = (x2 b - x1 b) * of_nat (canvas_width cv);
               rectH = (y2 b - y1 b) * of_nat (canvas_height cv)
           in (Some (instruction_line change), (True, fillRect rectX rectY rectW rectH cv)))
      | None \<Rightarrow> (None, st))"

text \<open>\<^verbatim>\<open>changes.map(...)\<close>: the callback runs on each change in order.\<close>

fun map_changes ::
  "TextWithBoundingBox list \<Rightarrow> TextItem list \<Rightarrow> bool \<times> Canvas \<Rightarrow> string option list \<times> (bool \<times> Canvas)" where
  "map_changes currentImageTextItems [] st = ([], st)"
| "map_changes currentImageTextItems (change # changes) st =
     (let (l, st') = mask_change currentImageTextItems change st;
          (ls, st'') = map_changes currentImageTextItems changes st'
      in (l # ls, st''))"

text \<open>\<^verbatim>\<open>.filter(Boolean)\<close> on a list of lines and \<^verbatim>\<open>null\<close>s: an empty string is falsy too.\<close>

definition filter_Boolean :: "string option list \<Rightarrow> string list" where
  "filter_Boolean ls = List.map_filter (\<lambda>l. case l of Some s \<Rightarrow> (if s = [] then None else Some s) | None \<Rightarrow> None) ls"

text \<open>
  Step 2 of the loop body, from the creation of the canvas to \<^verbatim>\<open>specificChanges\<close>:
  the canvas takes the image's natural size, the image is drawn, the fill style becomes
  magenta, and the changes are mapped. The result is the lines, the flag and the canvas.
\<close>

definition sentinel_color :: string where
  "sentinel_color = ''#FF00FF''"

definition build_mask ::
  "nat \<Rightarrow> nat \<Rightarrow> nat \<Rightarrow> TextWithBoundingBox list \<Rightarrow> TextItem list \<Rightarrow> string list \<times> (bool \<times> Canvas)" where
  "build_mask imageIndex naturalWidth naturalHeight currentImageTextItems changes =
     (let canvas = createCanvas\<lparr>canvas_width := naturalWidth, canvas_height := naturalHeight\<rparr>;
          canvas = drawImage imageIndex 0 0 canvas;
          canvas = canvas\<lparr>fillStyle := sentinel_color\<rparr>;
          (ls, st) = map_changes currentImageTextItems changes (False, canvas)
      in (filter_Boolean ls, st))"

section \<open>The remote service as the adapters see it\<close>

text \<open>
  An inline payload has optional \<^verbatim>\<open>data\<close> and \<^verbatim>\<open>mimeType\<close>; a content part either
  carries \<^verbatim>\<open>inlineData\<close> or does not (\<open>TextPart\<close>). The same shapes serve for
  requests and responses. A response is read through \<^verbatim>\<open>candidates\<close>,
  \<^verbatim>\<open>content\<close>, \<^verbatim>\<open>parts\<close>, \<^verbatim>\<open>finishReason\<close> and \<^verbatim>\<open>text\<close>, each of which may be
  absent.
\<close>

record Blob =
  blob_data :: "string option"
  blob_mimeType :: "string option"

datatype Part = InlineData Blob | TextPart string

datatype Config = OCR_schema_config | Image_modality_config

record Request =
  req_model :: string
  req_parts :: "Part list"
  req_config :: Config

record Content =
  parts :: "Part list option"

record Candidate =
  content :: "Content option"
  finishReason :: "string option"

record GenerateContentResponse =
  candidates :: "Candidate list option"
  response_text :: "string option"

text \<open>
  \<^verbatim>\<open>await ai.models.generateContent(request)\<close> either rejects with a thrown value or
  resolves to a response. The first argument is the index of the image on whose behalf
  the call is issued, so that the service may answer every call of a run differently.
\<close>

type_synonym remote = "nat \<Rightarrow> Request \<Rightarrow> js_thrown + GenerateContentResponse"

text \<open>Truthiness of an optional string, and its rendering inside a template literal.\<close>

definition truthy :: "string option \<Rightarrow> bool" where
  "truthy v = (case v of None \<Rightarrow> False | Some s \<Rightarrow> s \<noteq> [])"

definition js_str :: "string option \<Rightarrow> string" where
  "js_str v = (case v of None \<Rightarrow> ''undefined'' | Some s \<Rightarrow> s)"

text \<open>\<^verbatim>\<open>s.split(',')[1]\<close>: the piece between the first and the second comma, if any.\<close>

definition split_comma_1 :: "string \<Rightarrow> string option" where
  "split_comma_1 s =
     (case dropWhile (\<lambda>c. c \<noteq> CHR '','') s of
        [] \<Rightarrow> None
      | _ # rest \<Rightarrow> Some (takeWhile (\<lambda>c. c \<noteq> CHR '','') rest))"

definition getAI :: "string option \<Rightarrow> js_thrown + unit" where
  "getAI API_KEY = (if \<not> truthy API_KEY then Inl (Error ''API_KEY is not available.'') else Inr ())"

definition fileToGenerativePart :: "File \<Rightarrow> Part" where
  "fileToGenerativePart f =
     InlineData \<lparr>blob_data = split_comma_1 (file_dataURL f), blob_mimeType = Some (file_type f)\<rparr>"

section \<open>Text Extraction Adapter: \<^verbatim>\<open>extractTextWithBoundingBoxes\<close>\<close>

definition ocr_prompt :: string where
  \<open>ocr_prompt = ''Perform detailed OCR on this image. For each distinct line or block of text, provide its content and its bounding box coordinates. The coordinates should be percentages of the image's total width and height, with the origin (0,0) at the top-left corner. Return the result as a valid JSON array of objects, where each object has a "text" key and a "boundingBox" key. The boundingBox object should have "x1", "y1", "x2", "y2" keys. Example: [{"text": "Hello World", "boundingBox": {"x1": 0.1, "y1": 0.15, "x2": 0.4, "y2": 0.2}}]''\<close>

definition malformed_response_msg :: string where
  "malformed_response_msg =
     ''The AI could not extract text and location data in the expected format. Please try another image.''"

text \<open>
  The \<^verbatim>\<open>try\<close> block. \<^verbatim>\<open>JSON.parse\<close> belongs to the runtime and is a parameter:
  \<open>None\<close> is its \<^verbatim>\<open>SyntaxError\<close>. The parsed value is returned as it is
  (\<^verbatim>\<open>result as TextWithBoundingBox[]\<close> is a cast, not a check), so the adapter is
  generic in the type of parsed values. A response without \<^verbatim>\<open>text\<close> makes
  \<^verbatim>\<open>.trim()\<close> throw inside the \<^verbatim>\<open>try\<close>. The \<^verbatim>\<open>catch\<close> writes the raw text to the
  console only and throws the fixed message.
\<close>

definition parse_ocr_response :: "(string \<Rightarrow> 'a option) \<Rightarrow> GenerateContentResponse \<Rightarrow> js_thrown + 'a" where
  "parse_ocr_response JSON_parse response =
     (case response_text response of
        None \<Rightarrow> Inl (Error malformed_response_msg)
      | Some t \<Rightarrow>
          (let jsonText = trim t
           in case JSON_parse jsonText of
                None \<Rightarrow> Inl (Error malformed_response_msg)
              | Some parsed \<Rightarrow> Inr parsed))"

text \<open>The request of the adapter: the prompt, the image, and the response schema.\<close>

definition ocr_request :: "File \<Rightarrow> Request" where
  "ocr_request imageFile =
     (let imagePart = fileToGenerativePart imageFile
      in \<lparr>req_model = ''gemini-2.5-flash'',
          req_parts = [TextPart ocr_prompt, imagePart],
          req_config = OCR_schema_config\<rparr>)"

text \<open>
  The whole adapter: its outcome and the remote calls it issued. \<^verbatim>\<open>getAI\<close> and the
  remote call stand outside the \<^verbatim>\<open>try\<close>: what they throw leaves the adapter as it is.
\<close>

definition extractTextWithBoundingBoxes ::
  "string option \<Rightarrow> (Request \<Rightarrow> js_thrown + GenerateContentResponse) \<Rightarrow> (string \<Rightarrow> 'a option) \<Rightarrow>
     File \<Rightarrow> (js_thrown + 'a) \<times> Request list" where
  "extractTextWithBoundingBoxes API_KEY generateContent JSON_parse imageFile =
     (case getAI API_KEY of
        Inl e \<Rightarrow> (Inl e, [])
      | Inr _ \<Rightarrow>
          (let request = ocr_request imageFile
           in case generateContent request of
                Inl e \<Rightarrow> (Inl e, [request])
              | Inr response \<Rightarrow> (parse_ocr_response JSON_parse response, [request])))"

section \<open>Edit Adapter: \<^verbatim>\<open>editImage\<close>\<close>

text \<open>\<^verbatim>\<open>response.candidates?.[0]\<close>.\<close>

definition first_candidate :: "GenerateContentResponse \<Rightarrow> Candidate option" where
  "first_candidate response =
     (case candidates response of None \<Rightarrow> None | Some [] \<Rightarrow> None | Some (c # _) \<Rightarrow> Some c)"

text \<open>\<^verbatim>\<open>response.candidates?.[0]?.content?.parts ?? []\<close>.\<close>

definition response_parts :: "GenerateContentResponse \<Rightarrow> Part list" where
  "response_parts response =
     (case first_candidate response of
        None \<Rightarrow> []
      | Some c \<Rightarrow> (case content c of None \<Rightarrow> [] | Some ct \<Rightarrow> (case parts ct of None \<Rightarrow> [] | Some ps \<Rightarrow> ps)))"

text \<open>The \<^verbatim>\<open>for\<close> loop: it returns at the first part that has \<^verbatim>\<open>inlineData\<close>.\<close>

fun first_inlineData :: "Part list \<Rightarrow> Blob option" where
  "first_inlineData [] = None"
| "first_inlineData (InlineData b # ps) = Some b"
| "first_inlineData (TextPart t # ps) = first_inlineData ps"

definition blocked_msg :: "string \<Rightarrow> string" where
  "blocked_msg blockReason =
     ''Image generation was blocked. Reason: '' @ blockReason @ ''. Please try a different prompt.''"

definition no_image_msg :: string where
  "no_image_msg =
     ''No edited image found in the response. The model may not have been able to fulfill the request.''"

text \<open>\<^verbatim>\<open>response.candidates?.[0]?.finishReason\<close>.\<close>

definition response_finishReason :: "GenerateContentResponse \<Rightarrow> string option" where
  "response_finishReason response =
     (case first_candidate response of None \<Rightarrow> None | Some c \<Rightarrow> finishReason c)"

text \<open>Everything after the remote call: what \<^verbatim>\<open>editImage\<close> makes of a response.\<close>

definition edit_result :: "GenerateContentResponse \<Rightarrow> js_thrown + string" where
  "edit_result response =
     (case first_inlineData (response_parts response) of
        Some b \<Rightarrow> Inr (''data:'' @ js_str (blob_mimeType b) @ '';base64,'' @ js_str (blob_data b))
      | None \<Rightarrow>
          (let blockReason = response_finishReason response
           in if truthy blockReason \<and> blockReason \<noteq> Some ''STOP''
              then Inl (Error (blocked_msg (js_str blockReason)))
              else Inl (Error no_image_msg)))"

text \<open>The request: the original image, the mask if one is given, and the prompt.\<close>

definition edit_request :: "string \<Rightarrow> File \<Rightarrow> string option \<Rightarrow> Request" where
  "edit_request prompt originalImageFile maskedImageBase64 =
     (let originalImagePart = fileToGenerativePart originalImageFile;
          ps = [originalImagePart];
          ps = (if truthy maskedImageBase64
                then ps @ [InlineData \<lparr>blob_data = split_comma_1 (js_str maskedImageBase64),
                                       blob_mimeType = Some (file_type originalImageFile)\<rparr>]
                else ps);
          ps = ps @ [TextPart prompt]
      in \<lparr>req_model = ''gemini-2.5-flash-image'', req_parts = ps,
          req_config = Image_modality_config\<rparr>)"

definition editImage ::
  "string option \<Rightarrow> (Request \<Rightarrow> js_thrown + GenerateContentResponse) \<Rightarrow>
     string \<Rightarrow> File \<Rightarrow> string option \<Rightarrow> (js_thrown + string) \<times> Request list" where
  "editImage API_KEY generateContent prompt originalImageFile maskedImageBase64 =
     (case getAI API_KEY of
        Inl e \<Rightarrow> (Inl e, [])
      | Inr _ \<Rightarrow>
          (let request = edit_request prompt originalImageFile maskedImageBase64
           in case generateContent request of
                Inl e \<Rightarrow> (Inl e, [request])
              | Inr response \<Rightarrow> (edit_result response, [request])))"

section \<open>Session state of the \<^verbatim>\<open>ImageEditor\<close> component\<close>

text \<open>
  The \<^verbatim>\<open>useState\<close> cells. \<^verbatim>\<open>Set<number>\<close> is a list without repetition in insertion
  order, which is the order in which a \<^verbatim>\<open>Set\<close> is iterated; the
  \<^verbatim>\<open>Record<number, BatchProgress>\<close> is a map.
\<close>

record session =
  uploadedImages :: "UploadedImage list"
  masterIndex :: "nat option"
  batchSelection :: "nat list"
  textItems :: "TextItem list"
  isAnalyzing :: bool
  analysisError :: "string option"
  batchProgress :: "nat \<rightharpoonup> BatchProgress"
  isBatchProcessing :: bool

definition initial_session :: session where
  "initial_session =
     \<lparr>uploadedImages = [], masterIndex = None, batchSelection = [], textItems = [],
      isAnalyzing = False, analysisError = None, batchProgress = Map.empty,
      isBatchProcessing = False\<rparr>"

text \<open>\<^verbatim>\<open>Set.prototype.has\<close>, \<^verbatim>\<open>add\<close> and \<^verbatim>\<open>delete\<close>.\<close>

definition Set_has :: "nat list \<Rightarrow> nat \<Rightarrow> bool" where
  "Set_has xs i \<longleftrightarrow> i \<in> set xs"

definition Set_add :: "nat list \<Rightarrow> nat \<Rightarrow> nat list" where
  "Set_add xs i = (if Set_has xs i then xs else xs @ [i])"

definition Set_delete :: "nat list \<Rightarrow> nat \<Rightarrow> nat list" where
  "Set_delete xs i = filter (\<lambda>j. j \<noteq> i) xs"

text \<open>
  What the browser and the remote service contribute to a handler: the API key of the
  build, the remote service, \<^verbatim>\<open>JSON.parse\<close> at the adapter's declared result type, the
  rendered image elements (\<^verbatim>\<open>imageRefs.current\<close>), whether \<^verbatim>\<open>getContext('2d')\<close>
  yields a context for the canvas of an image, and \<^verbatim>\<open>canvas.toDataURL\<close>.
\<close>

record HTMLImageElement =
  naturalWidth :: nat
  naturalHeight :: nat

record runtime =
  rt_API_KEY :: "string option"
  rt_generateContent :: remote
  rt_JSON_parse :: "string \<Rightarrow> TextWithBoundingBox list option"
  imageRefs :: "nat \<Rightarrow> HTMLImageElement option"
  getContext :: "nat \<Rightarrow> bool"
  toDataURL :: "Canvas \<Rightarrow> string \<Rightarrow> string"

subsection \<open>Upload and selection handlers\<close>

definition handleFileSelect :: "File list \<Rightarrow> session \<Rightarrow> session" where
  "handleFileSelect files s =
     (let newImages = map (\<lambda>f. \<lparr>image_file = f, image_base64 = file_dataURL f\<rparr>) files;
          updated = uploadedImages s @ newImages;
          s' = (if masterIndex s = None \<and> length updated > 0
                then s\<lparr>masterIndex := Some 0, batchSelection := [0]\<rparr> else s)
      in s'\<lparr>uploadedImages := updated\<rparr>)"

definition handleSelectMaster :: "nat \<Rightarrow> session \<Rightarrow> session" where
  "handleSelectMaster index s =
     (let s' = s\<lparr>masterIndex := Some index\<rparr>
      in if \<not> Set_has (batchSelection s) index
         then s'\<lparr>batchSelection := Set_add (batchSelection s') index\<rparr> else s')"

definition handleToggleBatchSelection :: "nat \<Rightarrow> session \<Rightarrow> session" where
  "handleToggleBatchSelection index s =
     (let newSelection = batchSelection s;
          newSelection =
            (if Set_has newSelection index
             then (if Some index \<noteq> masterIndex s then Set_delete newSelection index else newSelection)
             else Set_add newSelection index)
      in s\<lparr>batchSelection := newSelection\<rparr>)"

definition handleTextChange :: "nat \<Rightarrow> string \<Rightarrow> session \<Rightarrow> session" where
  "handleTextChange i newText s =
     s\<lparr>textItems := map (\<lambda>item. if item_id item = i then item\<lparr>modified := newText\<rparr> else item) (textItems s)\<rparr>"

subsection \<open>\<^verbatim>\<open>analyzeMasterImage\<close>\<close>

text \<open>The four setters before the \<^verbatim>\<open>try\<close>.\<close>

definition analysis_started :: "session \<Rightarrow> session" where
  "analysis_started s =
     s\<lparr>isAnalyzing := True, textItems := [], analysisError := None, batchProgress := Map.empty\<rparr>"

text \<open>\<^verbatim>\<open>extractedText.map((item, index) => ({id: index, ...}))\<close>.\<close>

definition to_textItems :: "TextWithBoundingBox list \<Rightarrow> TextItem list" where
  "to_textItems extractedText =
     map (\<lambda>(index, item). \<lparr>item_id = index, original = region_text item,
                             modified = region_text item, item_boundingBox = boundingBox item\<rparr>)
         (enumerate 0 extractedText)"

text \<open>The \<^verbatim>\<open>try\<close>, \<^verbatim>\<open>catch\<close> and \<^verbatim>\<open>finally\<close> branches, given the adapter's outcome.\<close>

definition analysis_finished :: "js_thrown + TextWithBoundingBox list \<Rightarrow> session \<Rightarrow> session" where
  "analysis_finished outcome s =
     (let s' = (case outcome of
                  Inr extractedText \<Rightarrow> s\<lparr>textItems := to_textItems extractedText\<rparr>
                | Inl err \<Rightarrow>
                    s\<lparr>analysisError :=
                         Some (case err of Error m \<Rightarrow> m
                               | NonError \<Rightarrow> ''An unknown error occurred during analysis.'')\<rparr>)
      in s'\<lparr>isAnalyzing := False\<rparr>)"

text \<open>
  The run of \<^verbatim>\<open>analyzeMasterImage\<close>: the session after the setters that precede the
  \<^verbatim>\<open>try\<close> and the session after the \<^verbatim>\<open>finally\<close>, in this order (no session at all when
  the guard returns early), and the remote calls issued.
\<close>

definition analyzeMasterImage :: "runtime \<Rightarrow> session \<Rightarrow> session list \<times> Request list" where
  "analyzeMasterImage rt s =
     (case masterIndex s of
        None \<Rightarrow> ([], [])
      | Some m \<Rightarrow>
          if \<not> m < length (uploadedImages s) then ([], [])
          else
            (let s1 = analysis_started s;
                 selectedFile = image_file (uploadedImages s ! m);
                 (outcome, calls) =
                   extractTextWithBoundingBoxes (rt_API_KEY rt) (rt_generateContent rt m)
                     (rt_JSON_parse rt) selectedFile
             in ([s1, analysis_finished outcome s1], calls)))"

subsection \<open>\<^verbatim>\<open>handleSubmit\<close>: one pass of the loop body\<close>

definition undefined_file_msg :: string where
  \<open>undefined_file_msg = ''Cannot read properties of undefined (reading 'file')''\<close>

definition not_found_msg :: string where
  "not_found_msg = ''The text to be changed was not found on this image variant.''"

definition prompt_preamble :: string where
  \<open>prompt_preamble = ''I have provided an original image and a version with bright magenta areas (a mask). Your ONLY task is to precisely fill in these magenta areas with new text. The result must be sharp, high-fidelity, and indistinguishable from the original's style, font, color, and perspective. Here are the specific replacements:'' @ [CHR 0x0A]\<close>

definition prompt_postscript :: string where
  "prompt_postscript = [CHR 0x0A] @ ''Do not alter any part of the image outside the magenta areas.''"

text \<open>The prompt: the preamble, the lines joined by newlines, and the postscript.\<close>

definition final_prompt :: "string list \<Rightarrow> string" where
  "final_prompt specificChanges =
     prompt_preamble @ join [CHR 0x0A] specificChanges @ prompt_postscript"

text \<open>
  The body of the \<^verbatim>\<open>try\<close> for one image index: the edited image or the value thrown,
  together with the remote calls issued. Reading \<^verbatim>\<open>.file\<close> of a missing array element
  throws a \<^verbatim>\<open>TypeError\<close>, whose message is the engine's.
\<close>

definition process_image ::
  "runtime \<Rightarrow> UploadedImage list \<Rightarrow> TextItem list \<Rightarrow> nat \<Rightarrow> (js_thrown + string) \<times> Request list" where
  "process_image rt uploaded changes imageIndex =
     (if \<not> imageIndex < length uploaded then (Inl (Error undefined_file_msg), [])
      else
        (let imageFile = image_file (uploaded ! imageIndex)
         in case imageRefs rt imageIndex of
              None \<Rightarrow>
                (Inl (Error (''Image element for index '' @ string_of_nat imageIndex @ '' not found.'')), [])
            | Some imageElement \<Rightarrow>
                (case extractTextWithBoundingBoxes (rt_API_KEY rt) (rt_generateContent rt imageIndex)
                        (rt_JSON_parse rt) imageFile of
                   (Inl err, calls) \<Rightarrow> (Inl err, calls)
                 | (Inr currentImageTextItems, calls) \<Rightarrow>
                     if \<not> getContext rt imageIndex
                     then (Inl (Error ''Could not create canvas context''), calls)
                     else
                       (let (specificChanges, hasMasks, canvas) =
                              build_mask imageIndex (naturalWidth imageElement)
                                (naturalHeight imageElement) currentImageTextItems changes
                        in if \<not> hasMasks then (Inl (Error not_found_msg), calls)
                           else
                             (let maskedImageBase64 = toDataURL rt canvas (file_type imageFile);
                                  finalPrompt = final_prompt specificChanges;
                                  (res, calls') =
                                    editImage (rt_API_KEY rt) (rt_generateContent rt imageIndex)
                                      finalPrompt imageFile (Some maskedImageBase64)
                              in (res, calls @ calls'))))))"

text \<open>The two \<^verbatim>\<open>setBatchProgress\<close> updates at the end of the \<^verbatim>\<open>try\<close> and in the \<^verbatim>\<open>catch\<close>.\<close>

definition errorMsg :: "js_thrown \<Rightarrow> string" where
  "errorMsg err = (case err of Error m \<Rightarrow> m | NonError \<Rightarrow> ''An unknown error occurred.'')"

definition progress_entry :: "js_thrown + string \<Rightarrow> BatchProgress" where
  "progress_entry outcome =
     (case outcome of
        Inr res \<Rightarrow> \<lparr>status = success, result = Some res, error_msg = None\<rparr>
      | Inl err \<Rightarrow> \<lparr>status = error, result = None, error_msg = Some (errorMsg err)\<rparr>)"

subsection \<open>\<^verbatim>\<open>handleSubmit\<close>: validation and the loop\<close>

text \<open>
  Besides the new session, a run yields what it did to the outside: the \<^verbatim>\<open>alert\<close>s
  shown, the remote calls issued, and every value \<^verbatim>\<open>batchProgress\<close> was set to, in order.
\<close>

record effects =
  alerts :: "string list"
  remote_calls :: "Request list"
  progress_log :: "(nat \<rightharpoonup> BatchProgress) list"

definition no_effects :: effects where
  "no_effects = \<lparr>alerts = [], remote_calls = [], progress_log = []\<rparr>"

fun batch_loop ::
  "runtime \<Rightarrow> TextItem list \<Rightarrow> nat list \<Rightarrow> session \<times> effects \<Rightarrow> session \<times> effects" where
  "batch_loop rt changes [] (s, fx) = (s, fx)"
| "batch_loop rt changes (imageIndex # rest) (s, fx) =
     (let (outcome, calls) = process_image rt (uploadedImages s) changes imageIndex;
          bp = (batchProgress s)(imageIndex \<mapsto> progress_entry outcome)
      in batch_loop rt changes rest
           (s\<lparr>batchProgress := bp\<rparr>,
            fx\<lparr>remote_calls := remote_calls fx @ calls, progress_log := progress_log fx @ [bp]\<rparr>))"

text \<open>\<^verbatim>\<open>Object.fromEntries(Array.from(batchSelection).map(idx => [idx, {status: 'loading'}]))\<close>.\<close>

definition initialProgress :: "nat list \<Rightarrow> (nat \<rightharpoonup> BatchProgress)" where
  "initialProgress sel =
     map_of (map (\<lambda>idx. (idx, \<lparr>status = loading, result = None, error_msg = None\<rparr>)) sel)"

definition select_alert :: string where
  "select_alert = ''Please select a master image and at least one image for the batch.''"

definition no_changes_alert :: string where
  \<open>no_changes_alert = ''You haven't made any text changes to apply.''\<close>

definition handleSubmit :: "runtime \<Rightarrow> session \<Rightarrow> session \<times> effects" where
  "handleSubmit rt s =
     (if masterIndex s = None \<or> length (batchSelection s) = 0
      then (s, no_effects\<lparr>alerts := [select_alert]\<rparr>)
      else
        (let changes = filter (\<lambda>item. original item \<noteq> modified item) (textItems s)
         in if length changes = 0 then (s, no_effects\<lparr>alerts := [no_changes_alert]\<rparr>)
            else
              (let s1 = s\<lparr>isBatchProcessing := True\<rparr>;
                   s2 = s1\<lparr>batchProgress := initialProgress (batchSelection s)\<rparr>;
                   (s3, fx) = batch_loop rt changes (batchSelection s)
                                (s2, no_effects\<lparr>progress_log := [batchProgress s2]\<rparr>)
               in (s3\<lparr>isBatchProcessing := False\<rparr>, fx))))"

subsection \<open>The component as a state machine\<close>

datatype event =
    FileSelect "File list"
  | SelectMaster nat
  | ToggleBatchSelection nat
  | TextChange nat string
  | Analyze runtime
  | Submit runtime

fun step :: "session \<Rightarrow> event \<Rightarrow> session" where
  "step s (FileSelect files) = handleFileSelect files s"
| "step s (SelectMaster index) = handleSelectMaster index s"
| "step s (ToggleBatchSelection index) = handleToggleBatchSelection index s"
| "step s (TextChange i newText) = handleTextChange i newText s"
| "step s (Analyze rt) = last (s # fst (analyzeMasterImage rt s))"
| "step s (Submit rt) = fst (handleSubmit rt s)"

definition run_events :: "event list \<Rightarrow> session" where
  "run_events evs = foldl step initial_session evs"

section \<open>Notions used to state the properties\<close>



text \<open>The invariant of the selection: a master index, when set, is in the batch selection.\<close>

definition master_selected :: "session \<Rightarrow> bool" where
  "master_selected s = (case masterIndex s of None \<Rightarrow> True | Some m \<Rightarrow> Set_has (batchSelection s) m)"





text \<open>
  JSON values as \<^verbatim>\<open>JSON.parse\<close> delivers them, and the schema the adapter requests:
  an array of objects, each with a string \<^verbatim>\<open>text\<close> and a \<^verbatim>\<open>boundingBox\<close> whose
  \<^verbatim>\<open>x1\<close>, \<^verbatim>\<open>y1\<close>, \<^verbatim>\<open>x2\<close>, \<^verbatim>\<open>y2\<close> are numbers between 0 and 1.
\<close>

datatype json =
    JNull
  | JBool bool
  | JNumber rat
  | JString string
  | JArray "json list"
  | JObject "(string \<times> json) list"

definition is_fraction :: "json option \<Rightarrow> bool" where
  "is_fraction v = (case v of Some (JNumber q) \<Rightarrow> 0 \<le> q \<and> q \<le> 1 | _ \<Rightarrow> False)"

definition is_TextRegion :: "json \<Rightarrow> bool" where
  "is_TextRegion v =
     (case v of
        JObject fs \<Rightarrow>
          (case map_of fs ''text'' of
             Some (JString _) \<Rightarrow>
               (case map_of fs ''boundingBox'' of
                  Some (JObject bb) \<Rightarrow>
                    is_fraction (map_of bb ''x1'') \<and> is_fraction (map_of bb ''y1'') \<and>
                    is_fraction (map_of bb ''x2'') \<and> is_fraction (map_of bb ''y2'')
                | _ \<Rightarrow> False)
           | _ \<Rightarrow> False)
      | _ \<Rightarrow> False)"

definition is_TextRegion_list :: "json \<Rightarrow> bool" where
  "is_TextRegion_list v = (case v of JArray vs \<Rightarrow> list_all is_TextRegion vs | _ \<Rightarrow> False)"

text \<open>
  Sample data: a response text that is valid JSON of the requested shape with a coordinate
  beyond 1, the value \<^verbatim>\<open>JSON.parse\<close> yields for it, and a response text that is not
  JSON. \<open>JSON_parse_sample\<close> is \<^verbatim>\<open>JSON.parse\<close> on these two texts.
\<close>

definition oversize_text :: string where
  \<open>oversize_text = ''[{"text":"SALE","boundingBox":{"x1":0.5,"y1":0.2,"x2":1.5,"y2":0.4}}]''\<close>

definition oversize_value :: json where
  "oversize_value =
     JArray [JObject [(''text'', JString ''SALE''),
                      (''boundingBox'', JObject [(''x1'', JNumber 0.5), (''y1'', JNumber 0.2),
                                                 (''x2'', JNumber 1.5), (''y2'', JNumber 0.4)])]]"

definition garbled_text :: string where
  "garbled_text = ''Sorry, I cannot read this image.''"

definition JSON_parse_sample :: "string \<Rightarrow> json option" where
  "JSON_parse_sample s = (if s = oversize_text then Some oversize_value else None)"

definition oversize_response :: GenerateContentResponse where
  "oversize_response =
     \<lparr>candidates = None, response_text = Some ([CHR 0x0A] @ oversize_text @ [CHR 0x0A])\<rparr>"

definition garbled_response :: GenerateContentResponse where
  "garbled_response = \<lparr>candidates = None, response_text = Some garbled_text\<rparr>"

text \<open>
  Sample data: edit responses with an image after a text part, with a safety block, and
  with an empty finish reason.
\<close>

definition image_response :: GenerateContentResponse where
  "image_response =
     \<lparr>candidates = Some [\<lparr>content = Some \<lparr>parts = Some
          [TextPart ''Here is the edited image.'',
           InlineData \<lparr>blob_data = Some ''iVBORw0KGgo='', blob_mimeType = Some ''image/png''\<rparr>,
           InlineData \<lparr>blob_data = Some ''AAAA'', blob_mimeType = Some ''image/jpeg''\<rparr>]\<rparr>,
          finishReason = Some ''STOP''\<rparr>],
      response_text = None\<rparr>"





text \<open>
  Sample data: three uploaded files; a remote service that reads SALE on the first, OPEN
  on the second and answers the third with prose, and that returns an image for every
  edit call; \<^verbatim>\<open>JSON.parse\<close> on these response texts; and the session reached by uploading
  the files, analysing the master, editing SALE to CLEARANCE and selecting the other two
  images.
\<close>

definition poster_file :: File where
  "poster_file = \<lparr>file_type = ''image/png'', file_dataURL = ''data:image/png;base64,UE9TVEVS''\<rparr>"

definition banner_file :: File where
  "banner_file = \<lparr>file_type = ''image/png'', file_dataURL = ''data:image/png;base64,QkFOTkVS''\<rparr>"

definition flyer_file :: File where
  "flyer_file = \<lparr>file_type = ''image/jpeg'', file_dataURL = ''data:image/jpeg;base64,RkxZRVI=''\<rparr>"

definition sale_text :: string where
  \<open>sale_text = ''[{"text":"SALE","boundingBox":{"x1":0.1,"y1":0.2,"x2":0.5,"y2":0.4}}]''\<close>

definition sale_regions :: "TextWithBoundingBox list" where
  "sale_regions =
     [\<lparr>region_text = ''SALE'', boundingBox = \<lparr>x1 = 0.1, y1 = 0.2, x2 = 0.5, y2 = 0.4\<rparr>\<rparr>]"

definition open_text :: string where
  \<open>open_text = ''[{"text":"OPEN","boundingBox":{"x1":0.3,"y1":0.1,"x2":0.7,"y2":0.2}}]''\<close>

definition open_regions :: "TextWithBoundingBox list" where
  "open_regions =
     [\<lparr>region_text = ''OPEN'', boundingBox = \<lparr>x1 = 0.3, y1 = 0.1, x2 = 0.7, y2 = 0.2\<rparr>\<rparr>]"

definition JSON_parse_regions :: "string \<Rightarrow> TextWithBoundingBox list option" where
  "JSON_parse_regions t =
     (if t = sale_text then Some sale_regions
      else if t = open_text then Some open_regions else None)"

definition sample_remote :: remote where
  "sample_remote i request =
     (case req_config request of
        OCR_schema_config \<Rightarrow>
          Inr \<lparr>candidates = None,
               response_text = Some (if i = 0 then sale_text else if i = 1 then open_text else garbled_text)\<rparr>
      | Image_modality_config \<Rightarrow> Inr image_response)"

definition sample_runtime :: runtime where
  "sample_runtime =
     \<lparr>rt_API_KEY = Some ''key'', rt_generateContent = sample_remote,
      rt_JSON_parse = JSON_parse_regions,
      imageRefs = (\<lambda>i. Some \<lparr>naturalWidth = 1000, naturalHeight = 500\<rparr>),
      getContext = (\<lambda>i. True),
      toDataURL = (\<lambda>cv t. ''data:image/png;base64,TUFTSw=='')\<rparr>"

definition sample_events :: "event list" where
  "sample_events =
     [FileSelect [poster_file, banner_file, flyer_file], Analyze sample_runtime,
      TextChange 0 ''CLEARANCE'', ToggleBatchSelection 1, ToggleBatchSelection 2]"

definition sample_session :: session where
  "sample_session = run_events sample_events"

text \<open>The session after the upload of the three sample files.\<close>

definition uploaded_session :: session where
  "uploaded_session = handleFileSelect [poster_file, banner_file, flyer_file] initial_session"

section \<open>Verified properties\<close>

section \<open>Properties of the Mask Builder\<close>
















section \<open>Properties of the adapters\<close>



lemma trim_oversize: "trim (CHR 0x0A # oversize_text @ [CHR 0x0A]) = oversize_text"
  by (simp add: trim_def is_js_whitespace_def oversize_text_def)

lemma trim_garbled: "trim garbled_text = garbled_text"
  by (simp add: trim_def is_js_whitespace_def garbled_text_def)

text \<open>
  Claim C1, as the code has it. For every raw remote response, the Text Extraction Adapter
  either returns the value that \<^verbatim>\<open>JSON.parse\<close> yields for the trimmed response text,
  as it is and unvalidated, or, when the response has no text or the trimmed text is not
  JSON, fails with the one malformed-response error, whose fixed message suggests trying
  another image. The error never depends on the raw response text. When the API key is
  set and the remote call resolves, the adapter's outcome is this and it has issued the
  one request.
\<close>

theorem extract_parsed_or_malformed:
  "(\<forall>t v. response_text response = Some t \<and> JSON_parse (trim t) = Some v \<longrightarrow>
       parse_ocr_response JSON_parse response = Inr v)
   \<and> (response_text response = None \<or> (\<exists>t. response_text response = Some t \<and> JSON_parse (trim t) = None) \<longrightarrow>
       parse_ocr_response JSON_parse response = Inl (Error malformed_response_msg))
   \<and> (\<forall>e. parse_ocr_response JSON_parse response = Inl e \<longrightarrow> e = Error malformed_response_msg)
   \<and> (truthy API_KEY \<and> generateContent (ocr_request imageFile) = Inr response \<longrightarrow>
       extractTextWithBoundingBoxes API_KEY generateContent JSON_parse imageFile =
         (parse_ocr_response JSON_parse response, [ocr_request imageFile]))"
  by (auto simp: parse_ocr_response_def extractTextWithBoundingBoxes_def getAI_def Let_def
      split: option.splits)

theorem extract_parsed_or_malformed_witness:
  "parse_ocr_response JSON_parse_sample oversize_response = Inr oversize_value
   \<and> parse_ocr_response JSON_parse_sample garbled_response = Inl (Error malformed_response_msg)
   \<and> parse_ocr_response JSON_parse_sample \<lparr>candidates = None, response_text = None\<rparr>
       = Inl (Error malformed_response_msg)"
proof -
  have a: "response_text oversize_response = Some ([CHR 0x0A] @ oversize_text @ [CHR 0x0A])
      \<and> JSON_parse_sample (trim ([CHR 0x0A] @ oversize_text @ [CHR 0x0A])) = Some oversize_value"
    by (simp add: oversize_response_def trim_oversize JSON_parse_sample_def)
  have b: "response_text garbled_response = Some garbled_text
      \<and> JSON_parse_sample (trim garbled_text) = None"
  proof -
    have "garbled_text \<noteq> oversize_text"
      by (simp add: garbled_text_def oversize_text_def)
    then show ?thesis
      by (simp add: garbled_response_def trim_garbled JSON_parse_sample_def)
  qed
  have c: "response_text \<lparr>candidates = None, response_text = None\<rparr> = None"
    by simp
  show ?thesis
    using a b c
      extract_parsed_or_malformed [of oversize_response JSON_parse_sample]
      extract_parsed_or_malformed [of garbled_response JSON_parse_sample]
      extract_parsed_or_malformed [of "\<lparr>candidates = None, response_text = None\<rparr>" JSON_parse_sample]
    by blast
qed

text \<open>
  Claim C1 as stated does not hold: the adapter does not check the parsed value against
  the schema. For a response whose text is JSON of the requested shape with \<^verbatim>\<open>x2\<close>
  equal to 1.5, the adapter returns the parsed array, whose coordinate lies outside the
  unit interval.
\<close>

theorem extract_unvalidated_counterexample:
  "fst (extractTextWithBoundingBoxes (Some ''key'') (\<lambda>request. Inr oversize_response) JSON_parse_sample
          \<lparr>file_type = ''image/png'', file_dataURL = ''data:image/png;base64,iVBORw0KGgo=''\<rparr>)
     = Inr oversize_value
   \<and> \<not> is_TextRegion_list oversize_value"
  by (simp add: extractTextWithBoundingBoxes_def getAI_def truthy_def parse_ocr_response_def
      oversize_response_def trim_oversize JSON_parse_sample_def
      is_TextRegion_list_def is_TextRegion_def is_fraction_def oversize_value_def)





section \<open>Properties of the session handlers\<close>

lemma batch_loop_frame:
  "masterIndex (fst (batch_loop rt ch sel (s, fx))) = masterIndex s
   \<and> batchSelection (fst (batch_loop rt ch sel (s, fx))) = batchSelection s
   \<and> uploadedImages (fst (batch_loop rt ch sel (s, fx))) = uploadedImages s
   \<and> textItems (fst (batch_loop rt ch sel (s, fx))) = textItems s
   \<and> isBatchProcessing (fst (batch_loop rt ch sel (s, fx))) = isBatchProcessing s"
  by (induction sel arbitrary: s fx) (simp_all add: Let_def split: prod.splits)

lemma handleSubmit_frame:
  "masterIndex (fst (handleSubmit rt s)) = masterIndex s
   \<and> batchSelection (fst (handleSubmit rt s)) = batchSelection s"
proof -
  define ch where "ch = filter (\<lambda>item. original item \<noteq> modified item) (textItems s)"
  define s2 where "s2 = s\<lparr>isBatchProcessing := True, batchProgress := initialProgress (batchSelection s)\<rparr>"
  define fx0 where "fx0 = no_effects\<lparr>progress_log := [batchProgress s2]\<rparr>"
  obtain s3 fx where b: "batch_loop rt ch (batchSelection s) (s2, fx0) = (s3, fx)"
    by (cases "batch_loop rt ch (batchSelection s) (s2, fx0)")
  have "masterIndex s3 = masterIndex s2 \<and> batchSelection s3 = batchSelection s2"
    using batch_loop_frame [of rt ch "batchSelection s" s2 fx0] by (simp add: b)
  then have "masterIndex s3 = masterIndex s \<and> batchSelection s3 = batchSelection s"
    by (simp add: s2_def)
  then show ?thesis
    using b by (simp add: handleSubmit_def Let_def ch_def s2_def fx0_def)
qed

lemma analyze_frame:
  "masterIndex (step s (Analyze rt)) = masterIndex s
   \<and> batchSelection (step s (Analyze rt)) = batchSelection s"
  by (simp add: analyzeMasterImage_def analysis_started_def analysis_finished_def Let_def
      split: option.splits prod.splits sum.splits)

lemma step_master_selected: "master_selected s \<Longrightarrow> master_selected (step s ev)"
proof (cases ev)
  case (FileSelect files)
  assume "master_selected s"
  then show ?thesis
    by (auto simp: FileSelect master_selected_def handleFileSelect_def Set_has_def Let_def split: option.splits)
next
  case (SelectMaster i)
  show ?thesis
    by (simp add: SelectMaster master_selected_def handleSelectMaster_def Set_has_def Set_add_def Let_def)
next
  case (ToggleBatchSelection i)
  assume "master_selected s"
  then show ?thesis
    by (auto simp: ToggleBatchSelection master_selected_def handleToggleBatchSelection_def
        Set_has_def Set_add_def Set_delete_def Let_def split: option.splits)
next
  case (TextChange i t)
  assume "master_selected s"
  then show ?thesis
    by (simp add: TextChange master_selected_def handleTextChange_def split: option.splits)
next
  case (Analyze rt)
  assume "master_selected s"
  then show ?thesis
    using analyze_frame [of s rt] by (simp only: Analyze master_selected_def)
next
  case (Submit rt)
  assume "master_selected s"
  then show ?thesis
    using handleSubmit_frame [of rt s] by (simp only: Submit step.simps master_selected_def)
qed

lemma foldl_step_master_selected:
  "master_selected s \<Longrightarrow> master_selected (foldl step s evs)"
  by (induction evs arbitrary: s) (simp_all add: step_master_selected)

lemma trim_sale_text: "trim sale_text = sale_text"
  by (simp add: trim_def is_js_whitespace_def sale_text_def)

lemma trim_open_text: "trim open_text = open_text"
  by (simp add: trim_def is_js_whitespace_def open_text_def)

lemma sample_texts_differ:
  "open_text \<noteq> sale_text" "garbled_text \<noteq> sale_text" "garbled_text \<noteq> open_text"
  by (simp_all add: open_text_def sale_text_def garbled_text_def)

lemma sample_extract:
  "extractTextWithBoundingBoxes (Some ''key'') (sample_remote i) JSON_parse_regions f =
     (if i = 0 then Inr sale_regions
      else if i = 1 then Inr open_regions else Inl (Error malformed_response_msg),
      [ocr_request f])"
  by (simp add: extractTextWithBoundingBoxes_def getAI_def truthy_def sample_remote_def
      ocr_request_def parse_ocr_response_def JSON_parse_regions_def
      trim_sale_text trim_open_text trim_garbled sample_texts_differ)

lemma uploaded_session_eval:
  "uploaded_session =
     \<lparr>uploadedImages =
        [\<lparr>image_file = poster_file, image_base64 = file_dataURL poster_file\<rparr>,
         \<lparr>image_file = banner_file, image_base64 = file_dataURL banner_file\<rparr>,
         \<lparr>image_file = flyer_file, image_base64 = file_dataURL flyer_file\<rparr>],
      masterIndex = Some 0, batchSelection = [0], textItems = [],
      isAnalyzing = False, analysisError = None, batchProgress = Map.empty,
      isBatchProcessing = False\<rparr>"
  by (simp add: uploaded_session_def handleFileSelect_def initial_session_def)

lemma sample_session_eval:
  "sample_session =
     \<lparr>uploadedImages =
        [\<lparr>image_file = poster_file, image_base64 = file_dataURL poster_file\<rparr>,
         \<lparr>image_file = banner_file, image_base64 = file_dataURL banner_file\<rparr>,
         \<lparr>image_file = flyer_file, image_base64 = file_dataURL flyer_file\<rparr>],
      masterIndex = Some 0, batchSelection = [0, 1, 2],
      textItems =
        [\<lparr>item_id = 0, original = ''SALE'', modified = ''CLEARANCE'',
          item_boundingBox = \<lparr>x1 = 0.1, y1 = 0.2, x2 = 0.5, y2 = 0.4\<rparr>\<rparr>],
      isAnalyzing = False, analysisError = None, batchProgress = Map.empty,
      isBatchProcessing = False\<rparr>"
  by (simp add: sample_session_def sample_events_def run_events_def
      uploaded_session_eval [unfolded uploaded_session_def]
      analyzeMasterImage_def sample_runtime_def sample_extract
      analysis_started_def analysis_finished_def to_textItems_def sale_regions_def
      handleTextChange_def handleToggleBatchSelection_def Set_has_def Set_add_def)

text \<open>
  Claim C9. In every session state reached from the initial one by any sequence of
  uploads, master selections, selection toggles, text edits, analyses and submissions, a
  master index that is set is a member of the batch selection, and every operation
  preserves this: setting an index as master puts it into the selection, the first upload
  makes index 0 master and the only selected index, and toggling the current master
  leaves it selected.
\<close>

theorem master_always_selected:
  "master_selected (run_events evs)
   \<and> (master_selected s \<longrightarrow> master_selected (step s ev))
   \<and> masterIndex (handleSelectMaster i s) = Some i
   \<and> Set_has (batchSelection (handleSelectMaster i s)) i
   \<and> (masterIndex s = None \<and> files \<noteq> [] \<longrightarrow>
        masterIndex (handleFileSelect files s) = Some 0 \<and> batchSelection (handleFileSelect files s) = [0])
   \<and> (masterIndex s = Some m \<and> Set_has (batchSelection s) m \<longrightarrow>
        masterIndex (handleToggleBatchSelection m s) = Some m \<and>
        Set_has (batchSelection (handleToggleBatchSelection m s)) m)"
proof -
  have a: "master_selected (run_events evs)"
    unfolding run_events_def
    by (rule foldl_step_master_selected) (simp add: master_selected_def initial_session_def)
  have b: "master_selected s \<longrightarrow> master_selected (step s ev)"
    using step_master_selected by blast
  have c: "masterIndex (handleSelectMaster i s) = Some i \<and> Set_has (batchSelection (handleSelectMaster i s)) i"
    by (simp add: handleSelectMaster_def Set_has_def Set_add_def Let_def)
  have d: "masterIndex s = None \<and> files \<noteq> [] \<longrightarrow>
        masterIndex (handleFileSelect files s) = Some 0 \<and> batchSelection (handleFileSelect files s) = [0]"
    by (simp add: handleFileSelect_def Let_def)
  have e: "masterIndex s = Some m \<and> Set_has (batchSelection s) m \<longrightarrow>
        masterIndex (handleToggleBatchSelection m s) = Some m \<and>
        Set_has (batchSelection (handleToggleBatchSelection m s)) m"
    by (simp add: handleToggleBatchSelection_def Let_def)
  show ?thesis using a b c d e by blast
qed

theorem master_always_selected_witness:
  "masterIndex sample_session = Some 0 \<and> batchSelection sample_session = [0, 1, 2]
   \<and> master_selected sample_session
   \<and> batchSelection (handleToggleBatchSelection 0 sample_session) = [0, 1, 2]
   \<and> batchSelection (handleToggleBatchSelection 1 sample_session) = [0, 2]
   \<and> masterIndex (handleSelectMaster 5 sample_session) = Some 5
   \<and> batchSelection (handleSelectMaster 5 sample_session) = [0, 1, 2, 5]
   \<and> masterIndex (handleFileSelect [poster_file] initial_session) = Some 0
   \<and> batchSelection (handleFileSelect [poster_file] initial_session) = [0]"
proof -
  have a: "masterIndex sample_session = Some 0 \<and> batchSelection sample_session = [0, 1, 2]"
    by (simp add: sample_session_eval)
  have b: "master_selected sample_session"
    unfolding sample_session_def by (rule master_always_selected [THEN conjunct1])
  have c: "batchSelection (handleToggleBatchSelection 0 sample_session) = [0, 1, 2]
      \<and> batchSelection (handleToggleBatchSelection 1 sample_session) = [0, 2]
      \<and> masterIndex (handleSelectMaster 5 sample_session) = Some 5
      \<and> batchSelection (handleSelectMaster 5 sample_session) = [0, 1, 2, 5]"
    by (simp add: sample_session_eval handleToggleBatchSelection_def handleSelectMaster_def
        Set_has_def Set_add_def Set_delete_def)
  have d: "masterIndex initial_session = None \<and> [poster_file] \<noteq> []"
    by (simp add: initial_session_def)
  note e = master_always_selected [THEN conjunct2, THEN conjunct2, THEN conjunct2, THEN conjunct2,
      THEN conjunct1, THEN mp, OF d]
  show ?thesis using a b c e by simp
qed

text \<open>
  Claim C5. If the master index is unset, or the batch selection is empty, or no text item
  is active (every item's \<^verbatim>\<open>modified\<close> equals its \<^verbatim>\<open>original\<close>), the submission shows one
  validation alert, issues no remote call, and returns the session as it was: the
  batch-in-progress flag is not set and the progress map is untouched.
\<close>

theorem submit_validation:
  assumes "masterIndex s = None \<or> batchSelection s = [] \<or>
           (\<forall>item \<in> set (textItems s). modified item = original item)"
  shows "fst (handleSubmit rt s) = s
       \<and> isBatchProcessing (fst (handleSubmit rt s)) = isBatchProcessing s
       \<and> batchProgress (fst (handleSubmit rt s)) = batchProgress s
       \<and> remote_calls (snd (handleSubmit rt s)) = []
       \<and> progress_log (snd (handleSubmit rt s)) = []
       \<and> (alerts (snd (handleSubmit rt s)) = [select_alert] \<or>
          alerts (snd (handleSubmit rt s)) = [no_changes_alert])"
proof (cases "masterIndex s = None \<or> batchSelection s = []")
  case True
  then show ?thesis
    by (auto simp: handleSubmit_def no_effects_def)
next
  case False
  with assms have "\<forall>item \<in> set (textItems s). modified item = original item"
    by blast
  then have "filter (\<lambda>item. original item \<noteq> modified item) (textItems s) = []"
    by (auto simp: filter_empty_conv)
  then show ?thesis
    using False by (simp add: handleSubmit_def no_effects_def)
qed

theorem submit_validation_witness:
  "handleSubmit sample_runtime initial_session =
     (initial_session, \<lparr>alerts = [select_alert], remote_calls = [], progress_log = []\<rparr>)
   \<and> handleSubmit sample_runtime (sample_session\<lparr>batchSelection := []\<rparr>) =
     (sample_session\<lparr>batchSelection := []\<rparr>,
      \<lparr>alerts = [select_alert], remote_calls = [], progress_log = []\<rparr>)
   \<and> handleSubmit sample_runtime (handleTextChange 0 ''SALE'' sample_session) =
     (handleTextChange 0 ''SALE'' sample_session,
      \<lparr>alerts = [no_changes_alert], remote_calls = [], progress_log = []\<rparr>)"
proof -
  have h1: "masterIndex initial_session = None \<or> batchSelection initial_session = [] \<or>
           (\<forall>item \<in> set (textItems initial_session). modified item = original item)"
    by (simp add: initial_session_def)
  have a1: "alerts (snd (handleSubmit sample_runtime initial_session)) = [select_alert]"
    by (simp add: handleSubmit_def initial_session_def no_effects_def)
  have h2: "masterIndex (sample_session\<lparr>batchSelection := []\<rparr>) = None \<or>
           batchSelection (sample_session\<lparr>batchSelection := []\<rparr>) = [] \<or>
           (\<forall>item \<in> set (textItems (sample_session\<lparr>batchSelection := []\<rparr>)). modified item = original item)"
    by simp
  have a2: "alerts (snd (handleSubmit sample_runtime (sample_session\<lparr>batchSelection := []\<rparr>))) = [select_alert]"
    by (simp add: handleSubmit_def no_effects_def)
  have h3: "masterIndex (handleTextChange 0 ''SALE'' sample_session) = None \<or>
           batchSelection (handleTextChange 0 ''SALE'' sample_session) = [] \<or>
           (\<forall>item \<in> set (textItems (handleTextChange 0 ''SALE'' sample_session)). modified item = original item)"
    by (simp add: handleTextChange_def sample_session_eval)
  have a3: "alerts (snd (handleSubmit sample_runtime (handleTextChange 0 ''SALE'' sample_session))) = [no_changes_alert]"
    by (simp add: handleSubmit_def no_effects_def handleTextChange_def sample_session_eval)
  have r: "p = (fst p, \<lparr>alerts = alerts (snd p), remote_calls = remote_calls (snd p),
                           progress_log = progress_log (snd p)\<rparr>)" for p :: "session \<times> effects"
    by (cases p) simp
  show ?thesis
    using submit_validation [OF h1, of sample_runtime] submit_validation [OF h2, of sample_runtime]
      submit_validation [OF h3, of sample_runtime] a1 a2 a3
      r [of "handleSubmit sample_runtime initial_session"]
      r [of "handleSubmit sample_runtime (sample_session\<lparr>batchSelection := []\<rparr>)"]
      r [of "handleSubmit sample_runtime (handleTextChange 0 ''SALE'' sample_session)"]
    by metis
qed




section \<open>Properties of the batch run\<close>


























end
